theory Spec2Isabelle
  imports Complex_Main
begin

section \<open>The monitoring scheduler of scheduler.py\<close>

text \<open>
  The development embeds \<^verbatim>\<open>src/src/scheduler.py\<close> (class \<^verbatim>\<open>MonitoringScheduler\<close>).
  The store (\<^verbatim>\<open>database.db\<close>), the Panel Client (\<^verbatim>\<open>marzban_api\<close>), the chat bot and the
  schemas of \<^verbatim>\<open>models.schemas\<close> are collaborators that the scheduler only calls: their
  behaviour is a parameter of the model (record \<open>env\<close>), and everything the scheduler
  does to the outside is recorded in an explicit state (record \<open>world\<close>).

  Numbers: Python computes the percentages in IEEE doubles; the model computes them in
  exact rationals (\<open>rat\<close>). Python's \<^verbatim>\<open>int(x)\<close> on a float truncates towards zero.
\<close>

subsection \<open>Exceptions and printed lines\<close>

text \<open>
  \<open>Raised msg\<close> stands for any \<^verbatim>\<open>Exception\<close> a collaborator raises; \<open>UnboundLocalError\<close>
  and \<open>KeyError\<close> are the two exceptions the scheduler's own code can raise.
\<close>

datatype exn = Raised string | UnboundLocalError string | KeyError string

text \<open>The value of \<^verbatim>\<open>config.BACKUP_INTERVAL\<close>: config.py stores \<^verbatim>\<open>int(raw)\<close> when the
  environment string parses as an integer and the raw string otherwise.\<close>

datatype cfg_value = IntVal int | StrVal string

text \<open>A printed line is the sequence of pieces of its f-string.\<close>

datatype piece = Txt string | ExnP exn | IntP int | TimeP rat | CfgP cfg_value

subsection \<open>Schemas\<close>

text \<open>Modelled from the spec: \<^verbatim>\<open>models.schemas\<close> is not among the sources; the fields are
  the ones scheduler.py reads and writes, typed as section 3 of the specification says.
  \<open>id'\<close> is the field \<^verbatim>\<open>id\<close>; the field names of the other schemas carry a prefix where
  two schemas share a name.\<close>

record AdminModel =
  id' :: int
  user_id :: int
  username :: "string option"
  marzban_username :: "string option"
  is_active :: bool
  created_at :: rat
  max_users :: int
  max_total_time :: int
  max_total_traffic :: int

record AdminStats =
  total_users :: int
  total_traffic_used :: int

record UserModel =
  u_username :: string
  is_expired :: bool

record UsageReportModel =
  r_admin_user_id :: int
  check_time :: rat
  current_users :: int
  current_total_time :: int
  current_total_traffic :: int
  users_data :: string

record LogModel =
  l_admin_user_id :: "int option"
  action :: string
  details :: string
  timestamp :: rat

record LimitCheckResult =
  admin_user_id :: int
  admin_id :: "int option"
  exceeded :: bool
  warning :: bool
  limits_data :: "string \<rightharpoonup> rat"

text \<open>Modelled from the spec: \<^verbatim>\<open>LimitCheckResult(admin_user_id=u)\<close> with every other field
  at its default is the neutral result (\<^verbatim>\<open>exceeded=false, warning=false\<close>), with no
  internal identifier and an empty mapping.\<close>

definition LimitCheckResult_neutral :: "int \<Rightarrow> LimitCheckResult" where
  "LimitCheckResult_neutral u =
     \<lparr>admin_user_id = u, admin_id = None, exceeded = False, warning = False,
      limits_data = Map.empty\<rparr>"

subsection \<open>The outside world\<close>

datatype api_call = GetAdminStats string | GetUsers string | RemoveUser string

datatype chat = ChatInt int | ChatStr string

text \<open>A message text is either a string of \<^verbatim>\<open>config.MESSAGES\<close> as it is, or
  \<^verbatim>\<open>template.format(key=value)\<close>, kept as template, key and rendered value.\<close>

datatype msg_text = Literal string | Format string string string

text \<open>
  \<open>clock\<close> is the time in seconds (\<^verbatim>\<open>datetime.utcnow()\<close> reads it, \<^verbatim>\<open>asyncio.sleep\<close>
  advances it); \<open>api_calls\<close> are the calls made to the Panel Client, in order, whether they
  return or raise; \<open>reports\<close> and \<open>logs\<close> are the rows the store accepted; \<open>sent\<close> are
  the messages the bot delivered; \<open>printed\<close> are the lines written by \<^verbatim>\<open>print\<close>.
\<close>

record world =
  clock :: rat
  api_calls :: "api_call list"
  reports :: "UsageReportModel list"
  logs :: "LogModel list"
  sent :: "(chat \<times> msg_text) list"
  printed :: "piece list list"

text \<open>
  The configuration values of config.py that the scheduler reads, and the behaviour of
  each collaborator as a function of the call's arguments: \<open>Inl e\<close> (or \<open>Some e\<close> for
  a call that returns nothing) is the exception it raises.
  \<^verbatim>\<open>BackupManager.create_backup\<close> catches every exception itself and returns a pair.
\<close>

record env =
  MONITORING_INTERVAL :: int
  AUTO_DELETE_EXPIRED_USERS :: bool
  BACKUP_INTERVAL :: cfg_value
  TELEGRAM_ADMIN_CHAT_ID :: string
  MESSAGES :: "string \<rightharpoonup> string"
  db_get_admin_by_id :: "int option \<Rightarrow> exn + AdminModel option"
  db_get_all_admins :: "exn + AdminModel list"
  db_add_usage_report :: "UsageReportModel \<Rightarrow> exn option"
  db_add_log :: "LogModel \<Rightarrow> exn option"
  api_get_admin_stats :: "string \<Rightarrow> exn + AdminStats"
  api_get_users :: "string \<Rightarrow> exn + UserModel list"
  api_remove_user :: "string \<Rightarrow> exn + bool"
  create_backup :: "bool \<Rightarrow> bool \<times> string"
  bot_send_message :: "chat \<Rightarrow> msg_text \<Rightarrow> exn option"

definition print :: "piece list \<Rightarrow> world \<Rightarrow> world" where
  "print line w = w\<lparr>printed := printed w @ [line]\<rparr>"

definition sleep :: "rat \<Rightarrow> world \<Rightarrow> world" where
  "sleep d w = w\<lparr>clock := clock w + d\<rparr>"

definition call_api :: "api_call \<Rightarrow> world \<Rightarrow> world" where
  "call_api c w = w\<lparr>api_calls := api_calls w @ [c]\<rparr>"

subsection \<open>Python helpers\<close>

text \<open>\<^verbatim>\<open>int(x)\<close> on a float: truncation towards zero.\<close>

definition py_int :: "rat \<Rightarrow> int" where
  "py_int x = (if 0 \<le> x then \<lfloor>x\<rfloor> else \<lceil>x\<rceil>)"

text \<open>\<^verbatim>\<open>str(n)\<close> on an integer: its decimal digits.\<close>

definition digit_char :: "nat \<Rightarrow> char" where
  "digit_char d = char_of (48 + d)"

function str_nat :: "nat \<Rightarrow> string" where
  "str_nat n = (if n < 10 then [digit_char n] else str_nat (n div 10) @ [digit_char (n mod 10)])"
  by pat_completeness auto
termination
  by (relation "measure (\<lambda>n. n)") auto

declare str_nat.simps [simp del]

definition str_int :: "int \<Rightarrow> string" where
  "str_int i = (if i < 0 then CHR ''-'' # str_nat (nat (- i)) else str_nat (nat i))"

text \<open>\<^verbatim>\<open>a or b\<close> on optional strings: \<^verbatim>\<open>None\<close> and the empty string are falsy.\<close>

definition truthy :: "string option \<Rightarrow> bool" where
  "truthy s = (case s of None \<Rightarrow> False | Some t \<Rightarrow> t \<noteq> [])"

text \<open>\<^verbatim>\<open>admin.marzban_username or admin.username or str(admin.user_id)\<close>\<close>

definition admin_username_of :: "AdminModel \<Rightarrow> string" where
  "admin_username_of admin =
     (if truthy (marzban_username admin) then the (marzban_username admin)
      else if truthy (username admin) then the (username admin)
      else str_int (user_id admin))"

subsection \<open>check_admin_limits_by_id\<close>

text \<open>\<^verbatim>\<open>warning_levels = [0.6, 0.7, 0.8, 0.9]\<close>\<close>

definition warning_levels :: "rat list" where
  "warning_levels = [6 / 10, 7 / 10, 8 / 10, 9 / 10]"

text \<open>
  Lines 28 to 86. The \<^verbatim>\<open>except\<close> handler prints and then evaluates
  \<^verbatim>\<open>admin.user_id if admin else 0\<close>: when \<^verbatim>\<open>db.get_admin_by_id\<close> itself raised, the local
  \<^verbatim>\<open>admin\<close> was never assigned and the handler raises \<^verbatim>\<open>UnboundLocalError\<close>; on every
  later failure \<^verbatim>\<open>admin\<close> is the active row.
\<close>

definition check_admin_limits_by_id ::
  "env \<Rightarrow> int \<Rightarrow> world \<Rightarrow> (exn + LimitCheckResult) \<times> world" where
  "check_admin_limits_by_id env aid w =
     (case db_get_admin_by_id env (Some aid) of
        Inl e \<Rightarrow>
          (Inl (UnboundLocalError ''admin''),
           print [Txt ''Error checking admin limits: '', ExnP e] w)
      | Inr None \<Rightarrow> (Inr (LimitCheckResult_neutral 0), w)
      | Inr (Some admin) \<Rightarrow>
          if \<not> is_active admin then (Inr (LimitCheckResult_neutral (user_id admin)), w)
          else
            let admin_username = admin_username_of admin;
                w1 = call_api (GetAdminStats admin_username) w
            in (case api_get_admin_stats env admin_username of
                  Inl e \<Rightarrow>
                    (Inr (LimitCheckResult_neutral (user_id admin)),
                     print [Txt ''Error checking admin limits: '', ExnP e] w1)
                | Inr admin_stats \<Rightarrow>
                    let now = clock w1;
                        elapsed_seconds = now - created_at admin;
                        time_percentage =
                          (if max_total_time admin > 0
                           then elapsed_seconds / of_int (max_total_time admin) else 0);
                        user_percentage =
                          (if max_users admin > 0
                           then of_int (total_users admin_stats) / of_int (max_users admin)
                           else 0);
                        traffic_percentage =
                          (if max_total_traffic admin > 0
                           then of_int (total_traffic_used admin_stats)
                                  / of_int (max_total_traffic admin)
                           else 0);
                        limits_exceeded =
                          (time_percentage \<ge> 1 \<or> user_percentage \<ge> 1
                           \<or> traffic_percentage \<ge> 1);
                        warning_needed =
                          ((\<exists>level \<in> set warning_levels.
                              level \<le> time_percentage \<and> time_percentage < 1)
                           \<or> (\<exists>level \<in> set warning_levels.
                              level \<le> user_percentage \<and> user_percentage < 1)
                           \<or> (\<exists>level \<in> set warning_levels.
                              level \<le> traffic_percentage \<and> traffic_percentage < 1));
                        report =
                          \<lparr>r_admin_user_id = user_id admin,
                           check_time = now,
                           current_users = total_users admin_stats,
                           current_total_time = py_int elapsed_seconds,
                           current_total_traffic = total_traffic_used admin_stats,
                           users_data = ''[]''\<rparr>
                    in (case db_add_usage_report env report of
                          Some e \<Rightarrow>
                            (Inr (LimitCheckResult_neutral (user_id admin)),
                             print [Txt ''Error checking admin limits: '', ExnP e] w1)
                        | None \<Rightarrow>
                            (Inr \<lparr>admin_user_id = user_id admin,
                                  admin_id = Some (id' admin),
                                  exceeded = limits_exceeded,
                                  warning = warning_needed,
                                  limits_data =
                                    [''user_percentage'' \<mapsto> user_percentage,
                                     ''traffic_percentage'' \<mapsto> traffic_percentage,
                                     ''time_percentage'' \<mapsto> time_percentage,
                                     ''current_users'' \<mapsto> of_int (total_users admin_stats),
                                     ''max_users'' \<mapsto> of_int (max_users admin),
                                     ''current_traffic'' \<mapsto> 0,
                                     ''max_traffic'' \<mapsto> of_int (max_total_traffic admin),
                                     ''current_time'' \<mapsto> elapsed_seconds,
                                     ''max_time'' \<mapsto> of_int (max_total_time admin)]\<rparr>,
                             w1\<lparr>reports := reports w1 @ [report]\<rparr>))))"

subsection \<open>Notification handlers\<close>

text \<open>
  Lines 178 to 197. Each handler is one \<^verbatim>\<open>try\<close> whose \<^verbatim>\<open>except\<close> prints: the body is the
  function with the suffix \<open>_try\<close>. In the body, \<^verbatim>\<open>config.MESSAGES[...]\<close> and
  \<^verbatim>\<open>result.limits_data[...]\<close> raise \<^verbatim>\<open>KeyError\<close> on a missing key, in the order Python
  evaluates them.
\<close>

definition handle_limit_warning_try ::
  "env \<Rightarrow> LimitCheckResult \<Rightarrow> world \<Rightarrow> (exn + unit) \<times> world" where
  "handle_limit_warning_try env result w =
     (case db_get_admin_by_id env (admin_id result) of
        Inl e \<Rightarrow> (Inl e, w)
      | Inr None \<Rightarrow> (Inr (), w)
      | Inr (Some admin) \<Rightarrow>
          (case MESSAGES env ''limit_warning'' of
             None \<Rightarrow> (Inl (KeyError ''limit_warning''), w)
           | Some template \<Rightarrow>
          (case limits_data result ''user_percentage'' of
             None \<Rightarrow> (Inl (KeyError ''user_percentage''), w)
           | Some user_percentage \<Rightarrow>
          (case limits_data result ''traffic_percentage'' of
             None \<Rightarrow> (Inl (KeyError ''traffic_percentage''), w)
           | Some traffic_percentage \<Rightarrow>
          (case limits_data result ''time_percentage'' of
             None \<Rightarrow> (Inl (KeyError ''time_percentage''), w)
           | Some time_percentage \<Rightarrow>
               let message =
                     Format template ''percent''
                       (str_int (py_int
                          (max user_percentage (max traffic_percentage time_percentage) * 100)))
               in (case bot_send_message env (ChatInt (user_id admin)) message of
                     Some e \<Rightarrow> (Inl e, w)
                   | None \<Rightarrow>
                       (Inr (), w\<lparr>sent := sent w @ [(ChatInt (user_id admin), message)]\<rparr>)))))))"

definition handle_limit_warning ::
  "env \<Rightarrow> LimitCheckResult \<Rightarrow> world \<Rightarrow> (exn + unit) \<times> world" where
  "handle_limit_warning env result w =
     (case handle_limit_warning_try env result w of
        (Inl e, w') \<Rightarrow> (Inr (), print [Txt ''Error sending limit warning: '', ExnP e] w')
      | (Inr u, w') \<Rightarrow> (Inr u, w'))"

definition handle_limit_exceeded_try ::
  "env \<Rightarrow> LimitCheckResult \<Rightarrow> world \<Rightarrow> (exn + unit) \<times> world" where
  "handle_limit_exceeded_try env result w =
     (case db_get_admin_by_id env (admin_id result) of
        Inl e \<Rightarrow> (Inl e, w)
      | Inr None \<Rightarrow> (Inr (), w)
      | Inr (Some admin) \<Rightarrow>
          (case MESSAGES env ''limit_exceeded'' of
             None \<Rightarrow> (Inl (KeyError ''limit_exceeded''), w)
           | Some message \<Rightarrow>
               (case bot_send_message env (ChatInt (user_id admin)) (Literal message) of
                  Some e \<Rightarrow> (Inl e, w)
                | None \<Rightarrow>
                    (Inr (),
                     w\<lparr>sent := sent w @ [(ChatInt (user_id admin), Literal message)]\<rparr>))))"

definition handle_limit_exceeded ::
  "env \<Rightarrow> LimitCheckResult \<Rightarrow> world \<Rightarrow> (exn + unit) \<times> world" where
  "handle_limit_exceeded env result w =
     (case handle_limit_exceeded_try env result w of
        (Inl e, w') \<Rightarrow>
          (Inr (), print [Txt ''Error sending limit exceeded message: '', ExnP e] w')
      | (Inr u, w') \<Rightarrow> (Inr u, w'))"

subsection \<open>cleanup_expired_users\<close>

text \<open>
  Lines 98 to 107: the loop over the users that \<^verbatim>\<open>get_users\<close> returned, with the running
  count \<^verbatim>\<open>total_cleaned\<close>. The body calls \<^verbatim>\<open>remove_user(user.username)\<close> for the user at
  hand; it reads no other field of the user.
\<close>

fun remove_users :: "env \<Rightarrow> string \<Rightarrow> UserModel list \<Rightarrow> nat \<Rightarrow> world \<Rightarrow> nat \<times> world" where
  "remove_users env admin_username [] total_cleaned w = (total_cleaned, w)"
| "remove_users env admin_username (user # users) total_cleaned w =
     (let w1 = call_api (RemoveUser (u_username user)) w
      in (case api_remove_user env (u_username user) of
            Inl e \<Rightarrow>
              remove_users env admin_username users total_cleaned
                (print [Txt ''Error removing expired user '', Txt (u_username user),
                        Txt '': '', ExnP e] w1)
          | Inr success \<Rightarrow>
              if success
              then remove_users env admin_username users (total_cleaned + 1)
                     (sleep (1 / 10)
                        (print [Txt ''Removed expired user: '', Txt (u_username user),
                                Txt '' (admin: '', Txt admin_username, Txt '')''] w1))
              else remove_users env admin_username users total_cleaned (sleep (1 / 10) w1)))"

text \<open>Lines 92 to 111: the loop over the admins.\<close>

fun cleanup_admins :: "env \<Rightarrow> AdminModel list \<Rightarrow> nat \<Rightarrow> world \<Rightarrow> nat \<times> world" where
  "cleanup_admins env [] total_cleaned w = (total_cleaned, w)"
| "cleanup_admins env (admin # admins) total_cleaned w =
     (if \<not> is_active admin then cleanup_admins env admins total_cleaned w
      else
        let admin_username = admin_username_of admin;
            w1 = call_api (GetUsers admin_username) w
        in (case api_get_users env admin_username of
              Inl e \<Rightarrow>
                cleanup_admins env admins total_cleaned
                  (print [Txt ''Error cleaning expired users for admin '',
                          IntP (user_id admin), Txt '': '', ExnP e] w1)
            | Inr users \<Rightarrow>
                (case remove_users env admin_username users total_cleaned w1 of
                   (total_cleaned', w2) \<Rightarrow>
                     cleanup_admins env admins total_cleaned' (sleep (1 / 2) w2))))"

definition cleanup_expired_users_try :: "env \<Rightarrow> world \<Rightarrow> (exn + unit) \<times> world" where
  "cleanup_expired_users_try env w =
     (case db_get_all_admins env of
        Inl e \<Rightarrow> (Inl e, w)
      | Inr admins \<Rightarrow>
          (case cleanup_admins env admins 0 w of
             (total_cleaned, w1) \<Rightarrow>
               if total_cleaned > 0
               then
                 let log = \<lparr>l_admin_user_id = None,
                            action = ''expired_users_cleanup'',
                            details = ''Automatically cleaned up '' @ str_nat total_cleaned
                                        @ '' expired users'',
                            timestamp = clock w1\<rparr>
                 in (case db_add_log env log of
                       Some e \<Rightarrow> (Inl e, w1)
                     | None \<Rightarrow>
                         (Inr (),
                          print [Txt ''Expired users cleanup completed. Removed '',
                                 IntP (int total_cleaned), Txt '' users at '', TimeP (clock w1)]
                            (w1\<lparr>logs := logs w1 @ [log]\<rparr>)))
               else
                 (Inr (),
                  print [Txt ''Expired users cleanup completed. Removed '',
                         IntP (int total_cleaned), Txt '' users at '', TimeP (clock w1)] w1)))"

definition cleanup_expired_users :: "env \<Rightarrow> world \<Rightarrow> (exn + unit) \<times> world" where
  "cleanup_expired_users env w =
     (case cleanup_expired_users_try env w of
        (Inl e, w') \<Rightarrow> (Inr (), print [Txt ''Error in cleanup_expired_users: '', ExnP e] w')
      | (Inr u, w') \<Rightarrow> (Inr u, w'))"

subsection \<open>run_auto_backup\<close>

definition run_auto_backup_try :: "env \<Rightarrow> world \<Rightarrow> (exn + unit) \<times> world" where
  "run_auto_backup_try env w =
     (let w1 = print [Txt ''Running auto backup at '', TimeP (clock w)] w
      in (case create_backup env True of
            (success, message) \<Rightarrow>
              if success
              then
                let log = \<lparr>l_admin_user_id = None,
                           action = ''auto_backup'',
                           details = ''Auto backup created: '' @ message,
                           timestamp = clock w1\<rparr>
                in (case db_add_log env log of
                      Some e \<Rightarrow> (Inl e, w1)
                    | None \<Rightarrow>
                        let w2 = w1\<lparr>logs := logs w1 @ [log]\<rparr>
                        in if TELEGRAM_ADMIN_CHAT_ID env \<noteq> []
                           then
                             (case MESSAGES env ''backup_success'' of
                                None \<Rightarrow> (Inl (KeyError ''backup_success''), w2)
                              | Some template \<Rightarrow>
                                  let c = ChatStr (TELEGRAM_ADMIN_CHAT_ID env);
                                      m = Format template ''filename'' message
                                  in (case bot_send_message env c m of
                                        Some e \<Rightarrow> (Inl e, w2)
                                      | None \<Rightarrow> (Inr (), w2\<lparr>sent := sent w2 @ [(c, m)]\<rparr>)))
                           else (Inr (), w2))
              else (Inr (), print [Txt ''Auto backup failed: '', Txt message] w1)))"

definition run_auto_backup :: "env \<Rightarrow> world \<Rightarrow> (exn + unit) \<times> world" where
  "run_auto_backup env w =
     (case run_auto_backup_try env w of
        (Inl e, w') \<Rightarrow> (Inr (), print [Txt ''Error in auto backup: '', ExnP e] w')
      | (Inr u, w') \<Rightarrow> (Inr u, w'))"

subsection \<open>monitor_all_admins\<close>

text \<open>
  Lines 163 to 172: the body of the loop for one admin, with its own \<^verbatim>\<open>try\<close>. The loop
  runs over \<^verbatim>\<open>admins\<close>, every row of the store, not over \<^verbatim>\<open>active_admins\<close>.
\<close>

definition monitor_admin :: "env \<Rightarrow> AdminModel \<Rightarrow> world \<Rightarrow> world" where
  "monitor_admin env admin w =
     (case check_admin_limits_by_id env (id' admin) w of
        (Inl e, w1) \<Rightarrow>
          print [Txt ''Error monitoring admin panel '', IntP (id' admin), Txt '' (user '',
                 IntP (user_id admin), Txt ''): '', ExnP e] w1
      | (Inr result, w1) \<Rightarrow>
          (case (if exceeded result then handle_limit_exceeded env result w1
                 else if warning result then handle_limit_warning env result w1
                 else (Inr (), w1)) of
             (Inl e, w2) \<Rightarrow>
               print [Txt ''Error monitoring admin panel '', IntP (id' admin), Txt '' (user '',
                      IntP (user_id admin), Txt ''): '', ExnP e] w2
           | (Inr u, w2) \<Rightarrow> sleep 1 w2))"

fun monitor_loop :: "env \<Rightarrow> AdminModel list \<Rightarrow> world \<Rightarrow> world" where
  "monitor_loop env [] w = w"
| "monitor_loop env (admin # admins) w = monitor_loop env admins (monitor_admin env admin w)"

definition monitor_all_admins_try :: "env \<Rightarrow> world \<Rightarrow> (exn + unit) \<times> world" where
  "monitor_all_admins_try env w =
     (let w1 = print [Txt ''Starting monitoring check at '', TimeP (clock w)] w
      in (case (if AUTO_DELETE_EXPIRED_USERS env then cleanup_expired_users env w1
                else (Inr (), w1)) of
            (Inl e, w2) \<Rightarrow> (Inl e, w2)
          | (Inr u, w2) \<Rightarrow>
              (case db_get_all_admins env of
                 Inl e \<Rightarrow> (Inl e, w2)
               | Inr admins \<Rightarrow>
                   let active_admins = filter is_active admins
                   in if active_admins = []
                      then (Inr (), print [Txt ''No active admins to monitor''] w2)
                      else
                        let w3 = print [Txt ''Monitoring '', IntP (int (length active_admins)),
                                        Txt '' active admins''] w2;
                            w4 = monitor_loop env admins w3
                        in (Inr (),
                            print [Txt ''Monitoring check completed at '', TimeP (clock w4)] w4))))"

definition monitor_all_admins :: "env \<Rightarrow> world \<Rightarrow> (exn + unit) \<times> world" where
  "monitor_all_admins env w =
     (case monitor_all_admins_try env w of
        (Inl e, w') \<Rightarrow> (Inr (), print [Txt ''Error in monitor_all_admins: '', ExnP e] w')
      | (Inr u, w') \<Rightarrow> (Inr u, w'))"

subsection \<open>start and stop\<close>

text \<open>
  The timer infrastructure is APScheduler's \<^verbatim>\<open>AsyncIOScheduler\<close>, a library outside the
  repository. The model keeps what scheduler.py relies on: the jobs by identity
  (\<^verbatim>\<open>add_job(..., replace_existing=True)\<close> stores the job under its id, replacing a job
  of the same id), whether the scheduler runs, \<^verbatim>\<open>start()\<close> raising on a scheduler that
  already runs and \<^verbatim>\<open>shutdown()\<close> raising on one that does not; \<^verbatim>\<open>shutdown\<close> empties
  the job store.
\<close>

datatype trigger = IntervalTrigger int | CronTrigger string

datatype job_func = MonitorAllAdmins | RunAutoBackup

record job =
  func :: job_func
  job_trigger :: trigger
  name :: string
  max_instances :: nat

record AsyncIOScheduler =
  jobs :: "string \<rightharpoonup> job"
  running :: bool

definition add_job :: "string \<Rightarrow> job \<Rightarrow> AsyncIOScheduler \<Rightarrow> AsyncIOScheduler" where
  "add_job jid j s = s\<lparr>jobs := (jobs s)(jid \<mapsto> j)\<rparr>"

definition scheduler_start :: "AsyncIOScheduler \<Rightarrow> exn + AsyncIOScheduler" where
  "scheduler_start s =
     (if running s then Inl (Raised ''SchedulerAlreadyRunningError'')
      else Inr (s\<lparr>running := True\<rparr>))"


text \<open>The attributes of \<^verbatim>\<open>MonitoringScheduler\<close> that \<^verbatim>\<open>start\<close> and \<^verbatim>\<open>stop\<close> change.\<close>

record MonitoringScheduler =
  is_running :: bool
  scheduler :: AsyncIOScheduler

text \<open>\<^verbatim>\<open>__init__\<close>: a fresh \<^verbatim>\<open>AsyncIOScheduler()\<close> and \<^verbatim>\<open>is_running = False\<close>.\<close>

definition init_scheduler :: MonitoringScheduler where
  "init_scheduler = \<lparr>is_running = False, scheduler = \<lparr>jobs = Map.empty, running = False\<rparr>\<rparr>"

text \<open>Lines 216 to 220: the dictionary of cron expressions and its \<^verbatim>\<open>.get\<close> with the
  daily expression as default. The keys are strings; an integer key equals none of them.\<close>

definition cron_table :: "cfg_value \<rightharpoonup> string" where
  "cron_table =
     [StrVal ''daily'' \<mapsto> ''0 0 * * *'',
      StrVal ''weekly'' \<mapsto> ''0 0 * * 0'',
      StrVal ''monthly'' \<mapsto> ''0 0 1 * *'']"

definition cron_expression :: "env \<Rightarrow> string" where
  "cron_expression env =
     (case cron_table (BACKUP_INTERVAL env) of Some c \<Rightarrow> c | None \<Rightarrow> ''0 0 * * *'')"

definition start ::
  "env \<Rightarrow> MonitoringScheduler \<Rightarrow> world \<Rightarrow> (exn + unit) \<times> MonitoringScheduler \<times> world" where
  "start env self w =
     (if is_running self then (Inr (), self, print [Txt ''Scheduler is already running''] w)
      else
        let w1 = print [Txt ''Starting monitoring scheduler...''] w;
            s1 = add_job ''admin_monitor''
                   \<lparr>func = MonitorAllAdmins,
                    job_trigger = IntervalTrigger (MONITORING_INTERVAL env),
                    name = ''Admin Limit Monitor'',
                    max_instances = 1\<rparr> (scheduler self);
            s2 = add_job ''auto_backup''
                   \<lparr>func = RunAutoBackup,
                    job_trigger = CronTrigger (cron_expression env),
                    name = ''Auto Backup'',
                    max_instances = 1\<rparr> s1
        in (case scheduler_start s2 of
              Inl e \<Rightarrow> (Inl e, self\<lparr>scheduler := s2\<rparr>, w1)
            | Inr s3 \<Rightarrow>
                let self' = \<lparr>is_running = True, scheduler = s3\<rparr>;
                    w2 = print [Txt ''Scheduler started. Monitoring every '',
                                IntP (MONITORING_INTERVAL env), Txt '' seconds, Backup: '',
                                CfgP (BACKUP_INTERVAL env), Txt ''.''] w1
                in (case monitor_all_admins env w2 of
                      (Inl e, w3) \<Rightarrow> (Inl e, self', w3)
                    | (Inr u, w3) \<Rightarrow>
                        (case run_auto_backup env w3 of (r, w4) \<Rightarrow> (r, self', w4)))))"


subsection \<open>Example inputs\<close>

text \<open>
  A store with three admins: \<open>ex_admin\<close> (ten users allowed, 1000 seconds allowed,
  unlimited traffic), \<open>ex_admin2\<close> (only traffic limited, no panel username of its own)
  and the inactive \<open>ex_admin3\<close>. At time 700 the panel reports ten users for the first
  and 50 bytes of traffic for the second.
\<close>

definition ex_admin :: AdminModel where
  "ex_admin =
     \<lparr>id' = 1, user_id = 1001, username = Some ''alice'', marzban_username = Some ''alice_mz'',
      is_active = True, created_at = 0, max_users = 10, max_total_time = 1000,
      max_total_traffic = 0\<rparr>"

definition ex_admin2 :: AdminModel where
  "ex_admin2 =
     \<lparr>id' = 2, user_id = 1002, username = Some ''bob'', marzban_username = None,
      is_active = True, created_at = 0, max_users = 0, max_total_time = 0,
      max_total_traffic = 100\<rparr>"

definition ex_admin3 :: AdminModel where
  "ex_admin3 =
     \<lparr>id' = 3, user_id = 1003, username = Some ''carol'', marzban_username = Some ''carol_mz'',
      is_active = False, created_at = 0, max_users = 1, max_total_time = 1,
      max_total_traffic = 1\<rparr>"

definition ex_stats :: AdminStats where
  "ex_stats = \<lparr>total_users = 10, total_traffic_used = 50\<rparr>"

definition ex_stats2 :: AdminStats where
  "ex_stats2 = \<lparr>total_users = 3, total_traffic_used = 50\<rparr>"

definition ex_users :: "UserModel list" where
  "ex_users = [\<lparr>u_username = ''u1'', is_expired = True\<rparr>,
               \<lparr>u_username = ''u2'', is_expired = False\<rparr>]"

definition ex_world :: world where
  "ex_world = \<lparr>clock = 700, api_calls = [], reports = [], logs = [], sent = [], printed = []\<rparr>"

definition ex_env :: env where
  "ex_env =
     \<lparr>MONITORING_INTERVAL = 600,
      AUTO_DELETE_EXPIRED_USERS = False,
      BACKUP_INTERVAL = StrVal ''daily'',
      TELEGRAM_ADMIN_CHAT_ID = ''42'',
      MESSAGES = [''limit_warning'' \<mapsto> ''warning {percent}'',
                  ''limit_exceeded'' \<mapsto> ''exceeded'',
                  ''backup_success'' \<mapsto> ''backup {filename}''],
      db_get_admin_by_id =
        (\<lambda>i. if i = Some 1 then Inr (Some ex_admin)
             else if i = Some 2 then Inr (Some ex_admin2)
             else if i = Some 3 then Inr (Some ex_admin3)
             else Inr None),
      db_get_all_admins = Inr [ex_admin, ex_admin2, ex_admin3],
      db_add_usage_report = (\<lambda>r. None),
      db_add_log = (\<lambda>l. None),
      api_get_admin_stats = (\<lambda>u. if u = ''bob'' then Inr ex_stats2 else Inr ex_stats),
      api_get_users = (\<lambda>u. if u = ''bob'' then Inr ex_users else Inr []),
      api_remove_user = (\<lambda>u. Inr True),
      create_backup = (\<lambda>c. (True, ''marzban_backup.tar.gz'')),
      bot_send_message = (\<lambda>c m. None)\<rparr>"

text \<open>The same store with a Panel Client that raises for the second admin.\<close>

definition ex_env_panel_fails :: env where
  "ex_env_panel_fails =
     ex_env\<lparr>api_get_admin_stats :=
              (\<lambda>u. if u = ''bob'' then Inl (Raised ''timeout'') else Inr ex_stats)\<rparr>"

text \<open>The same store, whose lookup by id raises.\<close>

definition ex_env_store_fails :: env where
  "ex_env_store_fails =
     ex_env\<lparr>db_get_admin_by_id := (\<lambda>i. Inl (Raised ''database is locked''))\<rparr>"



definition ex_env_hourly :: env where
  "ex_env_hourly = ex_env\<lparr>BACKUP_INTERVAL := IntVal 12\<rparr>"

section \<open>Properties\<close>

subsection \<open>Effects of the primitive steps\<close>

lemma sent_print [simp]: "sent (print l w) = sent w"
  by (simp add: print_def)

lemma sent_sleep [simp]: "sent (sleep d w) = sent w"
  by (simp add: sleep_def)

lemma sent_call_api [simp]: "sent (call_api c w) = sent w"
  by (simp add: call_api_def)

subsection \<open>The limit evaluation\<close>




subsection \<open>Dispatch\<close>




subsection \<open>One monitoring cycle\<close>

text \<open>Only \<open>check_admin_limits_by_id\<close> appends usage reports: printing, sleeping, the
  calls to the Panel Client, the notification handlers and the cleanup of expired users
  leave \<open>reports\<close> as they found it.\<close>

lemma reports_print [simp]: "reports (print l w) = reports w"
  by (simp add: print_def)

lemma reports_sleep [simp]: "reports (sleep d w) = reports w"
  by (simp add: sleep_def)

lemma reports_call_api [simp]: "reports (call_api c w) = reports w"
  by (simp add: call_api_def)

lemma handle_limit_exceeded_reports [simp]:
  "reports (snd (handle_limit_exceeded env r w)) = reports w"
  by (simp add: handle_limit_exceeded_def handle_limit_exceeded_try_def
      split: sum.splits option.splits)

lemma handle_limit_warning_reports [simp]:
  "reports (snd (handle_limit_warning env r w)) = reports w"
  by (simp add: handle_limit_warning_def handle_limit_warning_try_def Let_def
      split: sum.splits option.splits)

lemma remove_users_reports [simp]:
  "reports (snd (remove_users env au us n w)) = reports w"
  by (induction us arbitrary: n w) (simp_all add: Let_def split: sum.splits)

lemma cleanup_admins_reports [simp]:
  "reports (snd (cleanup_admins env as n w)) = reports w"
proof (induction as arbitrary: n w)
  case Nil
  then show ?case by simp
next
  case (Cons a as)
  show ?case
  proof (cases "is_active a")
    case False
    then show ?thesis using Cons by simp
  next
    case True
    show ?thesis
    proof (cases "api_get_users env (admin_username_of a)")
      case (Inl e)
      then show ?thesis using True Cons by (simp add: Let_def)
    next
      case (Inr users)
      obtain n' w2 where
        r: "remove_users env (admin_username_of a) users n
              (call_api (GetUsers (admin_username_of a)) w) = (n', w2)"
        by (cases "remove_users env (admin_username_of a) users n
              (call_api (GetUsers (admin_username_of a)) w)")
      have "reports w2 = reports w"
        using remove_users_reports [of env "admin_username_of a" users n
            "call_api (GetUsers (admin_username_of a)) w"] r
        by simp
      then show ?thesis using True Inr r Cons by (simp add: Let_def)
    qed
  qed
qed

lemma cleanup_expired_users_reports [simp]:
  "reports (snd (cleanup_expired_users env w)) = reports w"
proof -
  have "reports (snd (cleanup_expired_users_try env w)) = reports w"
  proof (cases "db_get_all_admins env")
    case (Inl e)
    then show ?thesis by (simp add: cleanup_expired_users_try_def)
  next
    case (Inr admins)
    obtain n w1 where c: "cleanup_admins env admins 0 w = (n, w1)"
      by (cases "cleanup_admins env admins 0 w")
    have "reports w1 = reports w"
      using cleanup_admins_reports [of env admins 0 w] c by simp
    then show ?thesis
      using Inr c
      by (simp add: cleanup_expired_users_try_def Let_def split: option.splits)
  qed
  then show ?thesis
    by (cases "cleanup_expired_users_try env w")
       (auto simp: cleanup_expired_users_def split: sum.splits)
qed

text \<open>The loop body for one admin leaves the reports as its call of
  \<open>check_admin_limits_by_id\<close> left them.\<close>

lemma monitor_admin_reports:
  "reports (monitor_admin env a w) = reports (snd (check_admin_limits_by_id env (id' a) w))"
proof (cases "check_admin_limits_by_id env (id' a) w")
  case (Pair res w1)
  show ?thesis
  proof (cases res)
    case (Inl e)
    then show ?thesis using Pair by (simp add: monitor_admin_def)
  next
    case (Inr r)
    have "reports (snd (if exceeded r then handle_limit_exceeded env r w1
                        else if warning r then handle_limit_warning env r w1
                        else (Inr (), w1))) = reports w1"
      by simp
    then show ?thesis
      using Pair Inr
      by (cases "if exceeded r then handle_limit_exceeded env r w1
                 else if warning r then handle_limit_warning env r w1
                 else (Inr (), w1)")
         (auto simp: monitor_admin_def split: sum.splits)
  qed
qed

text \<open>With a store that returns the row asked for and accepts every report, the check
  appends exactly one report for an active admin whose statistics the Panel Client
  returns, and none otherwise.\<close>

lemma check_admin_limits_by_id_reports:
  assumes "db_get_admin_by_id env (Some (id' a)) = Inr (Some a)"
    and "\<forall>report. db_add_usage_report env report = None"
  shows "\<exists>rs. reports (snd (check_admin_limits_by_id env (id' a) w)) = reports w @ rs
           \<and> map r_admin_user_id rs =
               (if is_active a \<and> \<not> isl (api_get_admin_stats env (admin_username_of a))
                then [user_id a] else [])"
  using assms
  by (cases "api_get_admin_stats env (admin_username_of a)")
     (simp_all add: check_admin_limits_by_id_def Let_def)

lemma monitor_loop_reports:
  assumes "\<forall>a \<in> set admins. db_get_admin_by_id env (Some (id' a)) = Inr (Some a)"
    and "\<forall>report. db_add_usage_report env report = None"
  shows "\<exists>rs. reports (monitor_loop env admins w) = reports w @ rs
           \<and> map r_admin_user_id rs =
               map user_id
                 (filter (\<lambda>a. is_active a
                            \<and> \<not> isl (api_get_admin_stats env (admin_username_of a))) admins)"
  using assms(1)
proof (induction admins arbitrary: w)
  case Nil
  then show ?case by simp
next
  case (Cons a admins)
  from Cons.prems have la: "db_get_admin_by_id env (Some (id' a)) = Inr (Some a)"
    and rest: "\<forall>a \<in> set admins. db_get_admin_by_id env (Some (id' a)) = Inr (Some a)"
    by simp_all
  from check_admin_limits_by_id_reports [OF la assms(2), of w]
  obtain rs1 where
    r1: "reports (monitor_admin env a w) = reports w @ rs1"
    and m1: "map r_admin_user_id rs1 =
               (if is_active a \<and> \<not> isl (api_get_admin_stats env (admin_username_of a))
                then [user_id a] else [])"
    by (auto simp: monitor_admin_reports)
  from Cons.IH [OF rest, of "monitor_admin env a w"]
  obtain rs2 where
    r2: "reports (monitor_loop env admins (monitor_admin env a w)) =
           reports (monitor_admin env a w) @ rs2"
    and m2: "map r_admin_user_id rs2 =
               map user_id
                 (filter (\<lambda>a. is_active a
                            \<and> \<not> isl (api_get_admin_stats env (admin_username_of a))) admins)"
    by blast
  have "reports (monitor_loop env (a # admins) w) = reports w @ (rs1 @ rs2)"
    using r1 r2 by simp
  moreover have "map r_admin_user_id (rs1 @ rs2) =
      map user_id
        (filter (\<lambda>a. is_active a
                   \<and> \<not> isl (api_get_admin_stats env (admin_username_of a))) (a # admins))"
    using m1 m2 by simp
  ultimately show ?case by blast
qed

lemma length_filter_split:
  "length (filter P xs) =
     length (filter (\<lambda>x. P x \<and> Q x) xs) + length (filter (\<lambda>x. P x \<and> \<not> Q x) xs)"
  by (induction xs) auto

text \<open>The outermost \<^verbatim>\<open>try\<close> of each job catches every exception.\<close>

lemma cleanup_expired_users_returns: "fst (cleanup_expired_users env w) = Inr ()"
  by (cases "cleanup_expired_users_try env w")
     (auto simp: cleanup_expired_users_def split: sum.splits)

lemma monitor_all_admins_returns: "fst (monitor_all_admins env w) = Inr ()"
  by (cases "monitor_all_admins_try env w")
     (auto simp: monitor_all_admins_def split: sum.splits)

lemma monitor_all_admins_reports:
  assumes "db_get_all_admins env = Inr admins"
    and "filter is_active admins \<noteq> []"
  shows "\<exists>w3. reports w3 = reports w
           \<and> reports (snd (monitor_all_admins env w)) = reports (monitor_loop env admins w3)"
proof -
  define w1 where "w1 = print [Txt ''Starting monitoring check at '', TimeP (clock w)] w"
  obtain c w2 where
    cw: "(if AUTO_DELETE_EXPIRED_USERS env then cleanup_expired_users env w1
          else (Inr (), w1)) = (c, w2)"
    by (cases "if AUTO_DELETE_EXPIRED_USERS env then cleanup_expired_users env w1
               else (Inr (), w1)")
  have c: "c = Inr ()"
    using cw cleanup_expired_users_returns [of env w1] by (auto split: if_splits)
  have "w2 = snd (if AUTO_DELETE_EXPIRED_USERS env then cleanup_expired_users env w1
                  else (Inr (), w1))"
    using cw by simp
  then have r2: "reports w2 = reports w"
    by (simp add: w1_def)
  define w3 where
    "w3 = print [Txt ''Monitoring '', IntP (int (length (filter is_active admins))),
                 Txt '' active admins''] w2"
  have "monitor_all_admins_try env w =
          (Inr (), print [Txt ''Monitoring check completed at '',
                          TimeP (clock (monitor_loop env admins w3))]
                     (monitor_loop env admins w3))"
    using assms cw c
    by (simp add: monitor_all_admins_try_def Let_def w1_def [symmetric] w3_def)
  then have "reports (snd (monitor_all_admins env w)) = reports (monitor_loop env admins w3)"
    by (simp add: monitor_all_admins_def)
  moreover have "reports w3 = reports w" using r2 by (simp add: w3_def)
  ultimately show ?thesis by blast
qed

text \<open>
  Claim C3. Let the store enumerate \<open>admins\<close>, return each row when asked for its id
  and accept every report, and let the Panel Client's \<^verbatim>\<open>get_admin_stats\<close> raise for
  exactly one of the N active admins. Then one run of \<open>monitor_all_admins\<close> returns
  normally and appends exactly N - 1 usage reports: one for each active admin whose
  statistics were returned, in the order of enumeration, and none for the failing admin.
\<close>

theorem monitor_all_admins_isolates_panel_failure:
  assumes "db_get_all_admins env = Inr admins"
    and "\<forall>a \<in> set admins. db_get_admin_by_id env (Some (id' a)) = Inr (Some a)"
    and "\<forall>report. db_add_usage_report env report = None"
    and "length (filter (\<lambda>a. is_active a
                           \<and> isl (api_get_admin_stats env (admin_username_of a))) admins) = 1"
  shows "fst (monitor_all_admins env w) = Inr ()
         \<and> (\<exists>rs. reports (snd (monitor_all_admins env w)) = reports w @ rs
               \<and> length rs = length (filter is_active admins) - 1
               \<and> map r_admin_user_id rs =
                   map user_id
                     (filter (\<lambda>a. is_active a
                                \<and> \<not> isl (api_get_admin_stats env (admin_username_of a)))
                        admins))"
proof -
  let ?fails = "\<lambda>a. isl (api_get_admin_stats env (admin_username_of a))"
  have split: "length (filter is_active admins) =
                 1 + length (filter (\<lambda>a. is_active a \<and> \<not> ?fails a) admins)"
    using length_filter_split [of is_active admins ?fails] assms(4) by simp
  then have ne: "filter is_active admins \<noteq> []" by auto
  from monitor_all_admins_reports [OF assms(1) ne, of w]
  obtain w3 where w3: "reports w3 = reports w"
    and m: "reports (snd (monitor_all_admins env w)) = reports (monitor_loop env admins w3)"
    by blast
  from monitor_loop_reports [OF assms(2) assms(3), of w3]
  obtain rs where rs: "reports (monitor_loop env admins w3) = reports w3 @ rs"
    and mp: "map r_admin_user_id rs =
               map user_id (filter (\<lambda>a. is_active a \<and> \<not> ?fails a) admins)"
    by blast
  have "length rs = length (filter (\<lambda>a. is_active a \<and> \<not> ?fails a) admins)"
    using mp by (metis length_map)
  then have "length rs = length (filter is_active admins) - 1"
    using split by simp
  then show ?thesis
    using monitor_all_admins_returns [of env w] m rs w3 mp by auto
qed

theorem monitor_all_admins_isolates_panel_failure_witness:
  "db_get_all_admins ex_env_panel_fails = Inr [ex_admin, ex_admin2, ex_admin3]
   \<and> db_get_admin_by_id ex_env_panel_fails (Some (id' ex_admin)) = Inr (Some ex_admin)
   \<and> db_get_admin_by_id ex_env_panel_fails (Some (id' ex_admin2)) = Inr (Some ex_admin2)
   \<and> db_get_admin_by_id ex_env_panel_fails (Some (id' ex_admin3)) = Inr (Some ex_admin3)
   \<and> (\<forall>report. db_add_usage_report ex_env_panel_fails report = None)
   \<and> length (filter (\<lambda>a. is_active a
                  \<and> isl (api_get_admin_stats ex_env_panel_fails (admin_username_of a)))
               [ex_admin, ex_admin2, ex_admin3]) = 1
   \<and> length (filter is_active [ex_admin, ex_admin2, ex_admin3]) = 2
   \<and> fst (monitor_all_admins ex_env_panel_fails ex_world) = Inr ()
   \<and> map r_admin_user_id (reports (snd (monitor_all_admins ex_env_panel_fails ex_world)))
       = [1001]"
proof -
  have un: "admin_username_of ex_admin = ''alice_mz''" "admin_username_of ex_admin2 = ''bob''"
    by (simp_all add: admin_username_of_def truthy_def ex_admin_def ex_admin2_def)
  have act: "is_active ex_admin" "is_active ex_admin2" "\<not> is_active ex_admin3"
    by (simp_all add: ex_admin_def ex_admin2_def ex_admin3_def)
  have h1: "db_get_all_admins ex_env_panel_fails = Inr [ex_admin, ex_admin2, ex_admin3]"
    by (simp add: ex_env_panel_fails_def ex_env_def)
  have l1: "db_get_admin_by_id ex_env_panel_fails (Some (id' ex_admin)) = Inr (Some ex_admin)"
    and l2: "db_get_admin_by_id ex_env_panel_fails (Some (id' ex_admin2)) = Inr (Some ex_admin2)"
    and l3: "db_get_admin_by_id ex_env_panel_fails (Some (id' ex_admin3)) = Inr (Some ex_admin3)"
    by (simp_all add: ex_env_panel_fails_def ex_env_def ex_admin_def ex_admin2_def ex_admin3_def)
  have h2: "\<forall>a \<in> set [ex_admin, ex_admin2, ex_admin3].
              db_get_admin_by_id ex_env_panel_fails (Some (id' a)) = Inr (Some a)"
    using l1 l2 l3 by simp
  have h3: "\<forall>report. db_add_usage_report ex_env_panel_fails report = None"
    by (simp add: ex_env_panel_fails_def ex_env_def)
  have f1: "\<not> isl (api_get_admin_stats ex_env_panel_fails ''alice_mz'')"
    and f2: "isl (api_get_admin_stats ex_env_panel_fails ''bob'')"
    by (simp_all add: ex_env_panel_fails_def)
  have h4: "length (filter (\<lambda>a. is_active a
                  \<and> isl (api_get_admin_stats ex_env_panel_fails (admin_username_of a)))
               [ex_admin, ex_admin2, ex_admin3]) = 1"
    using un act f1 f2 by simp
  have n: "length (filter is_active [ex_admin, ex_admin2, ex_admin3]) = 2"
    using act by simp
  from monitor_all_admins_isolates_panel_failure [OF h1 h2 h3 h4, of ex_world]
  obtain rs where
    r: "fst (monitor_all_admins ex_env_panel_fails ex_world) = Inr ()"
    and rs: "reports (snd (monitor_all_admins ex_env_panel_fails ex_world)) = reports ex_world @ rs"
    and mp: "map r_admin_user_id rs =
               map user_id
                 (filter (\<lambda>a. is_active a
                            \<and> \<not> isl (api_get_admin_stats ex_env_panel_fails (admin_username_of a)))
                    [ex_admin, ex_admin2, ex_admin3])"
    by blast
  have "map r_admin_user_id rs = [1001]"
    using mp un act f1 f2 by (simp add: ex_admin_def)
  then have "map r_admin_user_id (reports (snd (monitor_all_admins ex_env_panel_fails ex_world)))
               = [1001]"
    using rs by (simp add: ex_world_def)
  with h1 l1 l2 l3 h3 h4 n r show ?thesis by blast
qed

subsection \<open>Failures and skipped admins in check_admin_limits_by_id\<close>

text \<open>Once the store has returned the active row, a failure of the Panel Client or of
  the store's \<^verbatim>\<open>add_usage_report\<close> ends in the neutral result.\<close>

lemma check_admin_limits_by_id_neutral_on_failure:
  assumes "db_get_admin_by_id env (Some aid) = Inr (Some admin)"
    and "is_active admin"
    and "isl (api_get_admin_stats env (admin_username_of admin))
         \<or> (\<forall>report. db_add_usage_report env report \<noteq> None)"
  shows "fst (check_admin_limits_by_id env aid w) = Inr (LimitCheckResult_neutral (user_id admin))"
proof (cases "api_get_admin_stats env (admin_username_of admin)")
  case (Inl e)
  then show ?thesis
    using assms(1,2) by (simp add: check_admin_limits_by_id_def)
next
  case (Inr admin_stats)
  with assms(3) have "\<And>report. \<exists>e. db_add_usage_report env report = Some e"
    by auto
  then obtain f where "\<And>report. db_add_usage_report env report = Some (f report)"
    by metis
  then show ?thesis
    using assms(1,2) Inr by (simp add: check_admin_limits_by_id_def Let_def)
qed

text \<open>When the first store lookup raises, the handler prints the error and then raises
  itself: nothing is returned.\<close>

lemma check_admin_limits_by_id_lookup_raises:
  assumes "db_get_admin_by_id env (Some aid) = Inl e"
  shows "check_admin_limits_by_id env aid w =
           (Inl (UnboundLocalError ''admin''),
            print [Txt ''Error checking admin limits: '', ExnP e] w)"
  using assms by (simp add: check_admin_limits_by_id_def)

text \<open>
  Claim C4 asks for the neutral result on every failure, the failure of the first store
  lookup \<^verbatim>\<open>get_admin_by_id\<close> included. On that failure the handler of line 86 reads the
  local \<^verbatim>\<open>admin\<close>, which was never assigned: with a store whose lookup raises, the
  function raises \<^verbatim>\<open>UnboundLocalError\<close> instead of returning.
\<close>

theorem check_admin_limits_by_id_lookup_failure_raises:
  "db_get_admin_by_id ex_env_store_fails (Some 1) = Inl (Raised ''database is locked'')
   \<and> fst (check_admin_limits_by_id ex_env_store_fails 1 ex_world)
       = Inl (UnboundLocalError ''admin'')"
  by (simp add: check_admin_limits_by_id_def ex_env_store_fails_def)

text \<open>
  Claim C5. When the store has no row for the identifier, or the row is inactive,
  \<open>check_admin_limits_by_id\<close> returns a result with \<open>exceeded\<close> and \<open>warning\<close> both
  false and leaves the world as it was: no call to the Panel Client, no usage report and
  no printed error line.
\<close>

theorem check_admin_limits_by_id_missing_or_inactive:
  assumes "db_get_admin_by_id env (Some aid) = Inr None
           \<or> (\<exists>admin. db_get_admin_by_id env (Some aid) = Inr (Some admin) \<and> \<not> is_active admin)"
  shows "\<exists>r. check_admin_limits_by_id env aid w = (Inr r, w)
             \<and> \<not> exceeded r \<and> \<not> warning r
             \<and> api_calls (snd (check_admin_limits_by_id env aid w)) = api_calls w
             \<and> reports (snd (check_admin_limits_by_id env aid w)) = reports w
             \<and> printed (snd (check_admin_limits_by_id env aid w)) = printed w"
  using assms
  by (auto simp: check_admin_limits_by_id_def LimitCheckResult_neutral_def)

theorem check_admin_limits_by_id_missing_or_inactive_witness:
  "db_get_admin_by_id ex_env (Some 3) = Inr (Some ex_admin3)
   \<and> is_active ex_admin3 = False
   \<and> check_admin_limits_by_id ex_env 3 ex_world = (Inr (LimitCheckResult_neutral 1003), ex_world)
   \<and> api_calls (snd (check_admin_limits_by_id ex_env 3 ex_world)) = []
   \<and> reports (snd (check_admin_limits_by_id ex_env 3 ex_world)) = []"
proof -
  have h: "db_get_admin_by_id ex_env (Some 3) = Inr (Some ex_admin3)"
    by (simp add: ex_env_def)
  have i: "\<not> is_active ex_admin3" by (simp add: ex_admin3_def)
  from h i have "db_get_admin_by_id ex_env (Some 3) = Inr None
      \<or> (\<exists>admin. db_get_admin_by_id ex_env (Some 3) = Inr (Some admin) \<and> \<not> is_active admin)"
    by blast
  from check_admin_limits_by_id_missing_or_inactive [OF this, of ex_world]
  obtain r where c: "check_admin_limits_by_id ex_env 3 ex_world = (Inr r, ex_world)"
    and a: "api_calls (snd (check_admin_limits_by_id ex_env 3 ex_world)) = api_calls ex_world"
    and rp: "reports (snd (check_admin_limits_by_id ex_env 3 ex_world)) = reports ex_world"
    by blast
  have "check_admin_limits_by_id ex_env 3 ex_world = (Inr (LimitCheckResult_neutral 1003), ex_world)"
    using h i by (simp add: check_admin_limits_by_id_def ex_admin3_def)
  then show ?thesis using h i a rp by (simp add: ex_world_def)
qed

subsection \<open>The raw values in limits_data\<close>

text \<open>On a successful evaluation the mapping carries the current and maximal values of
  users and time and the maximal traffic as they were used; the entry
  \<^verbatim>\<open>current_traffic\<close> is the constant 0 of line 78.\<close>

lemma check_admin_limits_by_id_raw_pairs:
  assumes "db_get_admin_by_id env (Some aid) = Inr (Some admin)"
    and "is_active admin"
    and "api_get_admin_stats env (admin_username_of admin) = Inr admin_stats"
    and "\<forall>report. db_add_usage_report env report = None"
  shows "\<exists>r w'. check_admin_limits_by_id env aid w = (Inr r, w')
           \<and> limits_data r ''current_users'' = Some (of_int (total_users admin_stats))
           \<and> limits_data r ''max_users'' = Some (of_int (max_users admin))
           \<and> limits_data r ''current_time'' = Some (clock w - created_at admin)
           \<and> limits_data r ''max_time'' = Some (of_int (max_total_time admin))
           \<and> limits_data r ''max_traffic'' = Some (of_int (max_total_traffic admin))
           \<and> limits_data r ''current_traffic'' = Some 0"
  using assms
  by (simp add: check_admin_limits_by_id_def Let_def call_api_def)

text \<open>
  Claim C8 asks that \<^verbatim>\<open>current_traffic\<close> be the observed \<^verbatim>\<open>total_traffic_used\<close> from which
  \<^verbatim>\<open>traffic_percentage\<close> was computed. For the second admin (100 bytes allowed, 50
  observed) the percentage is 1/2 and \<^verbatim>\<open>current_traffic\<close> is 0.
\<close>

theorem check_admin_limits_by_id_current_traffic_zero:
  "total_traffic_used ex_stats2 = 50
   \<and> (\<exists>r w'. check_admin_limits_by_id ex_env 2 ex_world = (Inr r, w')
         \<and> limits_data r ''traffic_percentage'' = Some (1 / 2)
         \<and> limits_data r ''max_traffic'' = Some 100
         \<and> limits_data r ''current_traffic'' = Some 0)"
  by (simp add: check_admin_limits_by_id_def Let_def call_api_def ex_env_def
      admin_username_of_def truthy_def ex_admin2_def ex_stats2_def)

subsection \<open>cleanup_expired_users\<close>

lemma api_calls_print [simp]: "api_calls (print l w) = api_calls w"
  by (simp add: print_def)

lemma api_calls_sleep [simp]: "api_calls (sleep d w) = api_calls w"
  by (simp add: sleep_def)

lemma api_calls_call_api [simp]: "api_calls (call_api c w) = api_calls w @ [c]"
  by (simp add: call_api_def)

text \<open>The inner loop calls \<^verbatim>\<open>remove_user\<close> for every user of the list it is given, in
  order, whatever the flag \<open>is_expired\<close> of the user says.\<close>

lemma remove_users_api_calls:
  "api_calls (snd (remove_users env au users n w)) =
     api_calls w @ map (\<lambda>user. RemoveUser (u_username user)) users"
  by (induction users arbitrary: n w) (simp_all add: Let_def split: sum.splits)

text \<open>
  Claim C6 asks that \<^verbatim>\<open>remove_user\<close> be called only for users flagged expired. For the
  second admin the Panel Client lists the expired \<^verbatim>\<open>u1\<close> and the unexpired \<^verbatim>\<open>u2\<close>; the
  cleanup calls \<^verbatim>\<open>remove_user\<close> for both.
\<close>

theorem cleanup_expired_users_removes_unexpired:
  "api_get_users ex_env (admin_username_of ex_admin2) = Inr ex_users
   \<and> ex_users ! 1 = \<lparr>u_username = ''u2'', is_expired = False\<rparr>
   \<and> api_calls (snd (cleanup_expired_users ex_env ex_world)) =
       [GetUsers ''alice_mz'', GetUsers ''bob'', RemoveUser ''u1'', RemoveUser ''u2'']"
proof -
  have un: "admin_username_of ex_admin = ''alice_mz''" "admin_username_of ex_admin2 = ''bob''"
    by (simp_all add: admin_username_of_def truthy_def ex_admin_def ex_admin2_def)
  have act: "is_active ex_admin" "is_active ex_admin2" "\<not> is_active ex_admin3"
    by (simp_all add: ex_admin_def ex_admin2_def ex_admin3_def)
  have g: "api_get_users ex_env ''alice_mz'' = Inr []" "api_get_users ex_env ''bob'' = Inr ex_users"
    by (simp_all add: ex_env_def)
  have rm: "\<And>u. api_remove_user ex_env u = Inr True"
    by (simp add: ex_env_def)
  have ru: "\<And>n w. api_calls (snd (remove_users ex_env ''bob'' ex_users n w)) =
              api_calls w @ [RemoveUser ''u1'', RemoveUser ''u2'']"
    by (simp add: remove_users_api_calls) (simp add: ex_users_def)
  have ca: "api_calls (snd (cleanup_admins ex_env [ex_admin, ex_admin2, ex_admin3] 0 ex_world)) =
              [GetUsers ''alice_mz'', GetUsers ''bob'', RemoveUser ''u1'', RemoveUser ''u2'']"
    by (simp add: un act g Let_def case_prod_beta ru) (simp add: ex_world_def)
  have al: "db_get_all_admins ex_env = Inr [ex_admin, ex_admin2, ex_admin3]"
    by (simp add: ex_env_def)
  have "api_calls (snd (cleanup_expired_users_try ex_env ex_world)) =
          api_calls (snd (cleanup_admins ex_env [ex_admin, ex_admin2, ex_admin3] 0 ex_world))"
    by (simp add: cleanup_expired_users_try_def al Let_def case_prod_beta split: option.splits)
  then have "api_calls (snd (cleanup_expired_users ex_env ex_world)) =
          api_calls (snd (cleanup_admins ex_env [ex_admin, ex_admin2, ex_admin3] 0 ex_world))"
    by (cases "cleanup_expired_users_try ex_env ex_world")
       (auto simp: cleanup_expired_users_def split: sum.splits)
  with ca g un show ?thesis by (simp add: ex_users_def)
qed

subsection \<open>run_auto_backup\<close>




subsection \<open>start and stop\<close>

lemma run_auto_backup_returns: "fst (run_auto_backup env w) = Inr ()"
  by (cases "run_auto_backup_try env w")
     (auto simp: run_auto_backup_def split: sum.splits)

text \<open>The whole effect of \<open>start\<close> on a scheduler that does not run: both jobs are
  stored, the timer runs, the flag is set, and the monitor job and then the backup job
  have run once.\<close>

lemma start_when_stopped:
  assumes "\<not> is_running self" and "\<not> running (scheduler self)"
  shows "start env self w =
           (Inr (),
            \<lparr>is_running = True,
             scheduler =
               \<lparr>jobs = (jobs (scheduler self))
                   (''admin_monitor'' \<mapsto>
                      \<lparr>func = MonitorAllAdmins,
                       job_trigger = IntervalTrigger (MONITORING_INTERVAL env),
                       name = ''Admin Limit Monitor'', max_instances = 1\<rparr>,
                    ''auto_backup'' \<mapsto>
                      \<lparr>func = RunAutoBackup,
                       job_trigger = CronTrigger (cron_expression env),
                       name = ''Auto Backup'', max_instances = 1\<rparr>),
                running = True\<rparr>\<rparr>,
            snd (run_auto_backup env
                   (snd (monitor_all_admins env
                           (print [Txt ''Scheduler started. Monitoring every '',
                                   IntP (MONITORING_INTERVAL env), Txt '' seconds, Backup: '',
                                   CfgP (BACKUP_INTERVAL env), Txt ''.'']
                              (print [Txt ''Starting monitoring scheduler...''] w))))))"
proof -
  define w2 where
    "w2 = print [Txt ''Scheduler started. Monitoring every '',
                 IntP (MONITORING_INTERVAL env), Txt '' seconds, Backup: '',
                 CfgP (BACKUP_INTERVAL env), Txt ''.'']
            (print [Txt ''Starting monitoring scheduler...''] w)"
  obtain w3 where m: "monitor_all_admins env w2 = (Inr (), w3)"
    using monitor_all_admins_returns [of env w2]
    by (cases "monitor_all_admins env w2") auto
  obtain w4 where b: "run_auto_backup env w3 = (Inr (), w4)"
    using run_auto_backup_returns [of env w3]
    by (cases "run_auto_backup env w3") auto
  show ?thesis
    using assms m b
    by (simp add: start_def Let_def add_job_def scheduler_start_def w2_def [symmetric])
qed


text \<open>
  Claim C10. Whenever \<^verbatim>\<open>BACKUP_INTERVAL\<close> is none of the strings \<^verbatim>\<open>daily\<close>, \<^verbatim>\<open>weekly\<close>,
  \<^verbatim>\<open>monthly\<close> (any integer, any other string), \<open>start\<close> on a scheduler that does not
  run returns normally and registers \<^verbatim>\<open>auto_backup\<close> with the daily cron expression
  \<^verbatim>\<open>0 0 * * *\<close>.
\<close>

theorem start_registers_daily_backup_by_default:
  assumes "BACKUP_INTERVAL env \<notin> {StrVal ''daily'', StrVal ''weekly'', StrVal ''monthly''}"
    and "\<not> is_running self"
    and "\<not> running (scheduler self)"
  shows "fst (start env self w) = Inr ()
         \<and> jobs (scheduler (fst (snd (start env self w)))) ''auto_backup'' =
             Some \<lparr>func = RunAutoBackup, job_trigger = CronTrigger ''0 0 * * *'',
                   name = ''Auto Backup'', max_instances = 1\<rparr>"
proof -
  have "cron_table (BACKUP_INTERVAL env) = None"
    using assms(1) by (simp add: cron_table_def)
  then have "cron_expression env = ''0 0 * * *''"
    by (simp add: cron_expression_def)
  then show ?thesis
    by (simp add: start_when_stopped [OF assms(2,3)])
qed


theorem start_registers_daily_backup_by_default_witness:
  "BACKUP_INTERVAL ex_env_hourly = IntVal 12
   \<and> BACKUP_INTERVAL ex_env_hourly \<notin> {StrVal ''daily'', StrVal ''weekly'', StrVal ''monthly''}
   \<and> \<not> is_running init_scheduler
   \<and> \<not> running (scheduler init_scheduler)
   \<and> fst (start ex_env_hourly init_scheduler ex_world) = Inr ()
   \<and> jobs (scheduler (fst (snd (start ex_env_hourly init_scheduler ex_world)))) ''auto_backup'' =
       Some \<lparr>func = RunAutoBackup, job_trigger = CronTrigger ''0 0 * * *'',
             name = ''Auto Backup'', max_instances = 1\<rparr>"
proof -
  have v: "BACKUP_INTERVAL ex_env_hourly = IntVal 12"
    by (simp add: ex_env_hourly_def)
  then have h1: "BACKUP_INTERVAL ex_env_hourly
                   \<notin> {StrVal ''daily'', StrVal ''weekly'', StrVal ''monthly''}"
    by simp
  have h2: "\<not> is_running init_scheduler" and h3: "\<not> running (scheduler init_scheduler)"
    by (simp_all add: init_scheduler_def)
  from start_registers_daily_backup_by_default [OF h1 h2 h3, of ex_world] v h1 h2 h3
  show ?thesis by blast
qed

end
